theory Spec2Isabelle
  imports Main "HOL-Library.Word"
begin

unbundle bit_operations_syntax

section \<open>The Nimiq backend adapter of blockbook\<close>

text \<open>
  The adapter (package \<open>nim\<close>) consists of the translator in
  \<open>bchain/coins/nim/nimparser.go\<close> and of the connector \<open>NimiqRPC\<close>. Go values are
  modelled as follows: \<open>uint64\<close>, \<open>int64\<close> and \<open>uint32\<close> are words of that width (a
  signed field is read with \<open>sint\<close>), Go's \<open>int\<close> of the configuration is a
  mathematical integer (no arithmetic is done on it), \<open>big.Int\<close> is \<open>int\<close>, a pointer
  that may be \<open>nil\<close> is an \<open>option\<close>, and a Go result pair \<open>(value, error)\<close> is a pair
  whose second component is an \<open>error option\<close> (\<open>None\<close> is the \<open>nil\<close> error).
\<close>

subsection \<open>Errors, arguments and effects\<close>

text \<open>The variadic \<open>interface{}\<close> arguments handed to the RPC client and to the
  formatting functions of the error package.\<close>

datatype arg = AString string | AUint32 "32 word" | ABool bool

text \<open>
  Modelled from the spec: the not-found errors of the host platform, \<open>ErrBlockNotFound\<close>
  and \<open>ErrTxNotFound\<close> (package \<open>bchain\<close> declares them, outside the sources), are two
  error values of their own, apart from every error another package makes.
  The other errors the adapter returns: \<open>New\<close>, \<open>Errorf\<close> and \<open>Annotatef\<close> are the
  constructors of the error package the adapter calls (format string and arguments are
  kept as they are passed); \<open>RPCError\<close> is an error produced by the RPC client and
  \<open>JSONError\<close> one produced by \<open>json.Unmarshal\<close>, both passed on unchanged.
\<close>

datatype error =
    ErrBlockNotFound
  | ErrTxNotFound
  | New string
  | Errorf string "arg list"
  | Annotatef error string "arg list"
  | RPCError string
  | JSONError string

text \<open>The text of an error made by \<open>errors.New\<close> is the text it was made from. The
  texts of the other errors are rendered by packages outside the adapter.\<close>

fun Error :: "error \<Rightarrow> string" where
  "Error (New text) = text"

text \<open>A call that dereferences a \<open>nil\<close> pointer panics instead of returning.\<close>

datatype 'a outcome = Panic | Return 'a

text \<open>What the adapter does to the RPC handle, in order: the requests it issues and
  the closing of the handle.\<close>

datatype event = Call string "arg list" | Close

type_synonym trace = "event list"

type_synonym RawMessage = string

subsection \<open>Wire shapes (nimparser.go)\<close>

record rpcHeader =
  Number :: "64 word"
  Hash :: string
  PoW :: string
  ParentHash :: string
  Nonce :: string
  BodyHash :: string
  AccountsHash :: string
  Miner :: string
  MinerAddress :: string
  Difficulty :: string
  ExtraData :: string
  Size :: "64 word"
  Time :: "64 word"

record rpcLightBlock =
  Txs :: "string list"

record rpcTx =
  Hash :: string
  BlockHash :: string
  Timestamp :: "64 word"
  Confirmations :: int
  TransactionIndex :: int
  From :: string
  FromAddress :: string
  To :: string
  ToAddress :: string
  Value :: "64 word"
  Fee :: "64 word"

record rpcBlock =
  Txs :: "rpcTx list"

subsection \<open>Canonical shapes (package bchain)\<close>

text \<open>
  Modelled from the spec: the canonical block, header and transaction of the host
  platform (package \<open>bchain\<close> declares them, outside the sources). Of each, the fields
  the adapter's struct literals assign are represented; every other field keeps Go's
  zero value in whatever the adapter builds. \<open>Height\<close> is a \<open>uint32\<close>, \<open>Time\<close> an \<open>int64\<close>,
  \<open>Size\<close> a Go \<open>int\<close> (64 bits on the platforms blockbook runs on), \<open>ValueSat\<close> a
  \<open>big.Int\<close>, \<open>json.Number\<close> a string.
\<close>

record BlockHeader =
  Hash :: string
  Prev :: string
  Height :: "32 word"
  Size :: "64 word"
  Time :: "64 word"

record Vin =
  Addresses :: "string list"

record ScriptPubKey =
  Addresses :: "string list"

record Vout =
  N :: "32 word"
  ValueSat :: int
  ScriptPubKey :: ScriptPubKey

record Tx =
  Txid :: string
  Vin :: "Vin list"
  Vout :: "Vout list"

record Block =
  BlockHeader :: BlockHeader
  Txs :: "Tx list"

record BlockInfo =
  BlockHeader :: BlockHeader
  Difficulty :: string
  Nonce :: string
  Txids :: "string list"

record BaseParser =
  BlockAddressesToKeep :: int
  AmountDecimalPoint :: int

record BaseChain =
  Parser :: "BaseParser option"
  Testnet :: bool
  Network :: string

subsection \<open>The translator (nimparser.go)\<close>

definition NimiqTypeAddressDescriptorLen :: int where
  "NimiqTypeAddressDescriptorLen = 20"

definition EtherAmountDecimalPoint :: int where
  "EtherAmountDecimalPoint = 5"

text \<open>A \<open>NimiqParser\<close> is a pointer to the embedded \<open>BaseParser\<close>.\<close>

definition NewEthereumParser :: "int \<Rightarrow> BaseParser" where
  "NewEthereumParser b =
     \<lparr>BaseParser.BlockAddressesToKeep = b, AmountDecimalPoint = EtherAmountDecimalPoint\<rparr>"

text \<open>\<open>uint32(block.Number)\<close> keeps the low 32 bits of the \<open>int64\<close>; \<open>int(block.Size)\<close>
  keeps the 64 bits of the \<open>uint64\<close>.\<close>

definition nimHeaderToBlockHeader :: "rpcHeader \<Rightarrow> BlockHeader" where
  "nimHeaderToBlockHeader block =
     \<lparr>BlockHeader.Hash = rpcHeader.Hash block,
      Prev = ParentHash block,
      Height = ucast (Number block),
      BlockHeader.Size = rpcHeader.Size block,
      BlockHeader.Time = rpcHeader.Time block\<rparr>"

text \<open>\<open>int64(tx.Value)\<close> reads the 64 bits of the \<open>uint64\<close> as two's complement, and
  \<open>big.NewInt\<close> stores that signed number.\<close>

definition nimTxToTx :: "rpcTx \<Rightarrow> Tx" where
  "nimTxToTx tx =
     \<lparr>Txid = rpcTx.Hash tx,
      Vin = [\<lparr>Vin.Addresses = [From tx]\<rparr>],
      Vout = [\<lparr>N = 0,
               ValueSat = sint (Value tx),
               ScriptPubKey = \<lparr>ScriptPubKey.Addresses = [To tx]\<rparr>\<rparr>]\<rparr>"

subsection \<open>What the connector is given\<close>

text \<open>The configuration document, decoded. \<open>RPCTimeout\<close> and \<open>BlockAddressesToKeep\<close>
  are Go \<open>int\<close>s.\<close>

record Configuration =
  CoinName :: string
  CoinShortcut :: string
  RPCURL :: string
  RPCTimeout :: int
  BlockAddressesToKeep :: int

text \<open>
  The RPC client (go-ethereum's \<open>rpc.Client\<close>) is not part of the adapter.
  \<open>CallContext\<close> sends one request and decodes the node's result into the variable
  whose address it is given; the client is represented by what that call yields for
  each type of result variable the adapter passes: the error it returns, or the value
  left in the variable (\<open>None\<close> for a pointer left \<open>nil\<close>). The answer may depend on
  everything done to the handle before.
\<close>

record Client =
  result_RawMessage :: "trace \<Rightarrow> string \<Rightarrow> arg list \<Rightarrow> string + RawMessage"
  result_rpcHeader :: "trace \<Rightarrow> string \<Rightarrow> arg list \<Rightarrow> string + rpcHeader option"
  result_rpcTx :: "trace \<Rightarrow> string \<Rightarrow> arg list \<Rightarrow> string + rpcTx option"
  result_uint32 :: "trace \<Rightarrow> string \<Rightarrow> arg list \<Rightarrow> string + 32 word"
  result_string :: "trace \<Rightarrow> string \<Rightarrow> arg list \<Rightarrow> string + string"
  result_strings :: "trace \<Rightarrow> string \<Rightarrow> arg list \<Rightarrow> string + string list"

text \<open>
  The other collaborators: \<open>json.Unmarshal\<close> into a fresh variable of each type the
  adapter decodes (an error text, or the decoded value), \<open>rpc.Dial\<close>, and the genesis
  hashes of package \<open>networks\<close> (byte arrays).
\<close>

record Collaborators =
  Unmarshal_Configuration :: "RawMessage \<Rightarrow> string + Configuration"
  Unmarshal_rpcHeader :: "RawMessage \<Rightarrow> string + rpcHeader"
  Unmarshal_rpcBlock :: "RawMessage \<Rightarrow> string + rpcBlock"
  Unmarshal_rpcLightBlock :: "RawMessage \<Rightarrow> string + rpcLightBlock"
  Dial :: "string \<Rightarrow> string + Client"
  MainNet_Hash :: "8 word list"
  TestNet_Hash :: "8 word list"
  DevNet_Hash :: "8 word list"

text \<open>\<open>hex.EncodeToString\<close> of Go's standard library: two lower-case hexadecimal
  digits for each byte, the high nibble first.\<close>

definition hextable :: string where
  "hextable = ''0123456789abcdef''"

fun EncodeToString :: "8 word list \<Rightarrow> string" where
  "EncodeToString [] = []"
| "EncodeToString (v # src) =
     hextable ! unat (drop_bit 4 v) # hextable ! unat (v AND 0x0f) # EncodeToString src"

subsection \<open>The connector\<close>

text \<open>The two constants of type \<open>NimiqNet\<close>, a \<open>uint8\<close>.\<close>

definition MainNet :: "8 word" where
  "MainNet = 42"

definition TestNet :: "8 word" where
  "TestNet = 1"

text \<open>The connector. \<open>BaseChain\<close> is the embedded pointer to the host's base type, which
  holds the parser, the testnet flag and the network label.\<close>

record NimiqRPC =
  BaseChain :: "BaseChain option"
  rpc :: "Client option"
  timeout :: "64 word"
  ChainConfig :: "Configuration option"

text \<open>\<open>b.rpc.CallContext(ctx, &result, method, args...)\<close>: a \<open>nil\<close> handle panics;
  otherwise the request is issued and the client's answer for the result variable's
  type (the selector \<open>res\<close>) comes back.\<close>

definition CallContext ::
  "Client option \<Rightarrow> (Client \<Rightarrow> trace \<Rightarrow> string \<Rightarrow> arg list \<Rightarrow> string + 'r) \<Rightarrow>
   string \<Rightarrow> arg list \<Rightarrow> trace \<Rightarrow> (string + 'r) outcome \<times> trace" where
  "CallContext rc res method args t =
     (case rc of
        None \<Rightarrow> (Panic, t)
      | Some c \<Rightarrow> (Return (res c t method args), t @ [Call method args]))"

text \<open>The duration \<open>time.Duration(c.RPCTimeout) * time.Second\<close> is an \<open>int64\<close> product.
  The push handler is not used.\<close>

definition NewNimiqRPC ::
  "Collaborators \<Rightarrow> RawMessage \<Rightarrow> 'h \<Rightarrow> NimiqRPC option \<times> error option" where
  "NewNimiqRPC env config pushHandler =
     (case Unmarshal_Configuration env config of
        Inl err \<Rightarrow> (None, Some (Annotatef (JSONError err) ''Invalid configuration file'' []))
      | Inr c0 \<Rightarrow>
          (let c = (if Configuration.BlockAddressesToKeep c0 < 100
                    then c0\<lparr>Configuration.BlockAddressesToKeep := 100\<rparr> else c0)
           in case Dial env (RPCURL c) of
                Inl err \<Rightarrow> (None, Some (RPCError err))
              | Inr rc \<Rightarrow>
                  (Some \<lparr>BaseChain = Some \<lparr>Parser = None, Testnet = False, Network = []\<rparr>,
                         rpc = Some rc,
                         timeout = word_of_int (RPCTimeout c) * 1000000000,
                         ChainConfig = Some c\<rparr>,
                   None)))"

definition GetBestBlockHeight :: "NimiqRPC \<Rightarrow> trace \<Rightarrow> (32 word \<times> error option) outcome \<times> trace" where
  "GetBestBlockHeight b t =
     (case CallContext (rpc b) result_uint32 ''blockNumber'' [] t of
        (Panic, t') \<Rightarrow> (Panic, t')
      | (Return (Inl err), t') \<Rightarrow> (Return (0, Some (RPCError err)), t')
      | (Return (Inr headNum), t') \<Rightarrow> (Return (headNum, None), t'))"

definition GetBestBlockHash :: "NimiqRPC \<Rightarrow> trace \<Rightarrow> (string \<times> error option) outcome \<times> trace" where
  "GetBestBlockHash b t =
     (case GetBestBlockHeight b t of
        (Panic, t1) \<Rightarrow> (Panic, t1)
      | (Return (headNum, Some err), t1) \<Rightarrow> (Return ([], Some err), t1)
      | (Return (headNum, None), t1) \<Rightarrow>
          (case CallContext (rpc b) result_rpcHeader ''getBlockByNumber'' [AUint32 headNum] t1 of
             (Panic, t2) \<Rightarrow> (Panic, t2)
           | (Return (Inl err), t2) \<Rightarrow> (Return ([], Some (RPCError err)), t2)
           | (Return (Inr None), t2) \<Rightarrow> (Return ([], Some ErrBlockNotFound), t2)
           | (Return (Inr (Some block)), t2) \<Rightarrow> (Return (rpcHeader.Hash block, None), t2)))"

definition GetBlockHash ::
  "NimiqRPC \<Rightarrow> 32 word \<Rightarrow> trace \<Rightarrow> (string \<times> error option) outcome \<times> trace" where
  "GetBlockHash b height t =
     (case CallContext (rpc b) result_rpcHeader ''getBlockByNumber'' [AUint32 height] t of
        (Panic, t') \<Rightarrow> (Panic, t')
      | (Return (Inl err), t') \<Rightarrow> (Return ([], Some (RPCError err)), t')
      | (Return (Inr None), t') \<Rightarrow> (Return ([], Some ErrBlockNotFound), t')
      | (Return (Inr (Some block)), t') \<Rightarrow> (Return (rpcHeader.Hash block, None), t'))"

definition GetBlockHeader ::
  "NimiqRPC \<Rightarrow> string \<Rightarrow> trace \<Rightarrow> (BlockHeader option \<times> error option) outcome \<times> trace" where
  "GetBlockHeader b hash t =
     (case CallContext (rpc b) result_rpcHeader ''getBlockByHash'' [AString hash] t of
        (Panic, t') \<Rightarrow> (Panic, t')
      | (Return (Inl err), t') \<Rightarrow> (Return (None, Some (RPCError err)), t')
      | (Return (Inr None), t') \<Rightarrow> (Return (None, Some ErrBlockNotFound), t')
      | (Return (Inr (Some block)), t') \<Rightarrow>
          (Return (Some (nimHeaderToBlockHeader block), None), t'))"

text \<open>The loop over \<open>body.Txs\<close> fills \<open>btxs[i]\<close> with the mapping of the i-th
  transaction: it is \<open>map\<close>.\<close>

definition GetBlock ::
  "Collaborators \<Rightarrow> NimiqRPC \<Rightarrow> string \<Rightarrow> 32 word \<Rightarrow> trace \<Rightarrow>
   (Block option \<times> error option) outcome \<times> trace" where
  "GetBlock env b hash height t =
     (case (if hash \<noteq> []
            then CallContext (rpc b) result_RawMessage ''getBlockByHash''
                   [AString hash, ABool True] t
            else CallContext (rpc b) result_RawMessage ''getBlockByNumber''
                   [AUint32 height, ABool True] t) of
        (Panic, t') \<Rightarrow> (Panic, t')
      | (Return (Inl err), t') \<Rightarrow> (Return (None, Some (RPCError err)), t')
      | (Return (Inr raw), t') \<Rightarrow>
          (case Unmarshal_rpcHeader env raw of
             Inl err \<Rightarrow>
               (Return (None, Some (Annotatef (JSONError err) ''hash %v, height %v''
                                      [AString hash, AUint32 height])), t')
           | Inr head \<Rightarrow>
               (case Unmarshal_rpcBlock env raw of
                  Inl err \<Rightarrow>
                    (Return (None, Some (Annotatef (JSONError err) ''hash %v, height %v''
                                           [AString hash, AUint32 height])), t')
                | Inr body \<Rightarrow>
                    (Return (Some \<lparr>Block.BlockHeader = nimHeaderToBlockHeader head,
                                   Block.Txs = map nimTxToTx (rpcBlock.Txs body)\<rparr>,
                             None), t'))))"

definition GetBlockInfo ::
  "Collaborators \<Rightarrow> NimiqRPC \<Rightarrow> string \<Rightarrow> trace \<Rightarrow>
   (BlockInfo option \<times> error option) outcome \<times> trace" where
  "GetBlockInfo env b hash t =
     (case CallContext (rpc b) result_RawMessage ''getBlockByHash''
             [AString hash, ABool False] t of
        (Panic, t') \<Rightarrow> (Panic, t')
      | (Return (Inl err), t') \<Rightarrow> (Return (None, Some (RPCError err)), t')
      | (Return (Inr raw), t') \<Rightarrow>
          (case Unmarshal_rpcHeader env raw of
             Inl err \<Rightarrow>
               (Return (None, Some (Annotatef (JSONError err) ''hash %v'' [AString hash])), t')
           | Inr head \<Rightarrow>
               (case Unmarshal_rpcLightBlock env raw of
                  Inl err \<Rightarrow>
                    (Return (None, Some (Annotatef (JSONError err) ''hash %v''
                                           [AString hash])), t')
                | Inr body \<Rightarrow>
                    (Return (Some \<lparr>BlockInfo.BlockHeader = nimHeaderToBlockHeader head,
                                   BlockInfo.Difficulty = rpcHeader.Difficulty head,
                                   BlockInfo.Nonce = rpcHeader.Nonce head,
                                   Txids = rpcLightBlock.Txs body\<rparr>,
                             None), t'))))"

text \<open>
  \<open>Initialize\<close> fetches the block at height 1 and compares its hash with the three
  genesis hashes in the order of the \<open>switch\<close>. \<open>b.Testnet\<close> and \<open>b.Network\<close> are fields
  of the embedded \<open>*bchain.BaseChain\<close>; assigning through a \<open>nil\<close> one panics, and so
  does reading \<open>genesis.Hash\<close> of a \<open>nil\<close> block. Logging is left out.
\<close>

definition Initialize ::
  "Collaborators \<Rightarrow> NimiqRPC \<Rightarrow> trace \<Rightarrow> error option outcome \<times> NimiqRPC \<times> trace" where
  "Initialize env b t =
     (case GetBlock env b [] 1 t of
        (Panic, t') \<Rightarrow> (Panic, b, t')
      | (Return (genesis, Some err), t') \<Rightarrow> (Return (Some err), b, t')
      | (Return (None, None), t') \<Rightarrow> (Panic, b, t')
      | (Return (Some genesis, None), t') \<Rightarrow>
          (if BlockHeader.Hash (Block.BlockHeader genesis) = EncodeToString (MainNet_Hash env)
           then (case BaseChain b of
                   None \<Rightarrow> (Panic, b, t')
                 | Some bc \<Rightarrow>
                     (Return None,
                      b\<lparr>BaseChain := Some (bc\<lparr>Testnet := False, Network := ''mainnet''\<rparr>)\<rparr>, t'))
           else if BlockHeader.Hash (Block.BlockHeader genesis) = EncodeToString (TestNet_Hash env)
           then (case BaseChain b of
                   None \<Rightarrow> (Panic, b, t')
                 | Some bc \<Rightarrow>
                     (Return None,
                      b\<lparr>BaseChain := Some (bc\<lparr>Testnet := True, Network := ''testnet''\<rparr>)\<rparr>, t'))
           else if BlockHeader.Hash (Block.BlockHeader genesis) = EncodeToString (DevNet_Hash env)
           then (case BaseChain b of
                   None \<Rightarrow> (Panic, b, t')
                 | Some bc \<Rightarrow>
                     (Return None,
                      b\<lparr>BaseChain := Some (bc\<lparr>Testnet := True, Network := ''devnet''\<rparr>)\<rparr>, t'))
           else (Return (Some (Errorf ''Unknown network genesis %s''
                                 [AString (BlockHeader.Hash (Block.BlockHeader genesis))])),
                 b, t')))"

definition GetCoinName :: "NimiqRPC \<Rightarrow> string outcome" where
  "GetCoinName b = (case ChainConfig b of None \<Rightarrow> Panic | Some c \<Rightarrow> Return (CoinName c))"

definition GetSubversion :: "NimiqRPC \<Rightarrow> string" where
  "GetSubversion b = []"

text \<open>Modelled from the spec: the host's \<open>ChainInfo\<close>, \<open>Outpoint\<close> and \<open>MempoolEntry\<close>
  (package \<open>bchain\<close>, outside the sources) are types the adapter never builds or reads.\<close>

typedecl ChainInfo
typedecl Outpoint
typedecl MempoolEntry

definition GetChainInfo :: "NimiqRPC \<Rightarrow> ChainInfo option \<times> error option" where
  "GetChainInfo b = (None, Some (New ''not implemented''))"

text \<open>\<open>Close\<close> of the handle returns nothing; the handle stays in \<open>b.rpc\<close>.\<close>

definition Shutdown :: "NimiqRPC \<Rightarrow> 'c \<Rightarrow> trace \<Rightarrow> error option \<times> trace" where
  "Shutdown b ctx t = (None, if rpc b \<noteq> None then t @ [Close] else t)"

definition GetTransactionForMempool :: "NimiqRPC \<Rightarrow> string \<Rightarrow> Tx option \<times> error option" where
  "GetTransactionForMempool b txid =
     (None, Some (New ''GetTransactionForMempool: not supported''))"

definition GetTransaction ::
  "NimiqRPC \<Rightarrow> string \<Rightarrow> trace \<Rightarrow> (Tx option \<times> error option) outcome \<times> trace" where
  "GetTransaction b txid t =
     (case CallContext (rpc b) result_rpcTx ''getTransactionByHash'' [AString txid] t of
        (Panic, t') \<Rightarrow> (Panic, t')
      | (Return (Inl err), t') \<Rightarrow> (Return (None, Some (RPCError err)), t')
      | (Return (Inr None), t') \<Rightarrow> (Return (None, Some ErrTxNotFound), t')
      | (Return (Inr (Some tx)), t') \<Rightarrow> (Return (Some (nimTxToTx tx), None), t'))"

definition GetTransactionSpecific ::
  "NimiqRPC \<Rightarrow> Tx option \<Rightarrow> RawMessage option \<times> error option" where
  "GetTransactionSpecific b tx = (None, Some (New ''GetTransactionSpecific: not supported''))"

definition GetMempool :: "NimiqRPC \<Rightarrow> trace \<Rightarrow> (string list \<times> error option) outcome \<times> trace" where
  "GetMempool b t =
     (case CallContext (rpc b) result_strings ''mempoolContent'' [ABool False] t of
        (Panic, t') \<Rightarrow> (Panic, t')
      | (Return (Inl err), t') \<Rightarrow> (Return ([], Some (RPCError err)), t')
      | (Return (Inr txHashes), t') \<Rightarrow> (Return (txHashes, None), t'))"

definition EstimateFee :: "NimiqRPC \<Rightarrow> int \<Rightarrow> int \<times> error option" where
  "EstimateFee b blocks = (0, Some (New ''GetMempoolEntry: not supported''))"

definition EstimateSmartFee :: "NimiqRPC \<Rightarrow> int \<Rightarrow> bool \<Rightarrow> int \<times> error option" where
  "EstimateSmartFee b blocks conservative = (0, Some (New ''EstimateSmartFee: not supported''))"

definition SendRawTransaction ::
  "NimiqRPC \<Rightarrow> string \<Rightarrow> trace \<Rightarrow> (string \<times> error option) outcome \<times> trace" where
  "SendRawTransaction b hex t =
     (case CallContext (rpc b) result_string ''sendRawTransaction'' [AString hex] t of
        (Panic, t') \<Rightarrow> (Panic, t')
      | (Return (Inl err), t') \<Rightarrow> (Return ([], Some (RPCError err)), t')
      | (Return (Inr txHash), t') \<Rightarrow> (Return (txHash, None), t'))"

definition ResyncMempool :: "NimiqRPC \<Rightarrow> 'f \<Rightarrow> int \<times> error option" where
  "ResyncMempool b onNewTxAddr = (0, Some (New ''not implemented''))"

definition GetMempoolTransactions ::
  "NimiqRPC \<Rightarrow> string \<Rightarrow> Outpoint list option \<times> error option" where
  "GetMempoolTransactions b address =
     (None, Some (New ''GetMempoolTransactions: not supported''))"

definition GetMempoolTransactionsForAddrDesc ::
  "NimiqRPC \<Rightarrow> 8 word list \<Rightarrow> Outpoint list option \<times> error option" where
  "GetMempoolTransactionsForAddrDesc b addrDesc =
     (None, Some (New ''GetMempoolTransactionsForAddrDesc: not supported''))"

definition GetMempoolEntry :: "NimiqRPC \<Rightarrow> string \<Rightarrow> MempoolEntry option \<times> error option" where
  "GetMempoolEntry b txid = (None, Some (New ''GetMempoolEntry: not supported''))"

definition GetChainParser :: "NimiqRPC \<Rightarrow> BaseParser option outcome" where
  "GetChainParser b = (case BaseChain b of None \<Rightarrow> Panic | Some bc \<Rightarrow> Return (Parser bc))"

subsection \<open>Matching on the text of an error\<close>

text \<open>How a caller looks for a phrase in an error's text: \<open>strings.HasPrefix\<close> and
  \<open>strings.Contains\<close>.\<close>

fun HasPrefix :: "string \<Rightarrow> string \<Rightarrow> bool" where
  "HasPrefix s [] = True"
| "HasPrefix [] (p # ps) = False"
| "HasPrefix (c # s) (p # ps) = (c = p \<and> HasPrefix s ps)"

fun Contains :: "string \<Rightarrow> string \<Rightarrow> bool" where
  "Contains [] substr = (substr = [])"
| "Contains (c # s) substr = (HasPrefix (c # s) substr \<or> Contains s substr)"

text \<open>Whether a call failed with an error whose text contains a phrase.\<close>

definition mentions :: "error option \<Rightarrow> string \<Rightarrow> bool" where
  "mentions err phrase = (case err of None \<Rightarrow> False | Some e \<Rightarrow> Contains (Error e) phrase)"

subsection \<open>A concrete node\<close>

text \<open>
  A connector, a client and collaborators to run the operations on. The client answers
  every request for a raw result with one payload and leaves every header and
  transaction pointer \<open>nil\<close>; the decoders take the payload for the hash of a block
  without transactions.
\<close>

definition example_header :: "string \<Rightarrow> rpcHeader" where
  "example_header h =
     \<lparr>Number = 1, rpcHeader.Hash = h, PoW = ''00'', ParentHash = ''0000'',
      rpcHeader.Nonce = ''104295'', BodyHash = ''7c'', AccountsHash = ''1f'',
      Miner = ''00'', MinerAddress = ''NQ07 0000'', rpcHeader.Difficulty = ''1'',
      ExtraData = [], rpcHeader.Size = 257, rpcHeader.Time = 1523727000\<rparr>"

definition example_client :: "RawMessage \<Rightarrow> Client" where
  "example_client payload =
     \<lparr>result_RawMessage = (\<lambda>t method args. Inr payload),
      result_rpcHeader = (\<lambda>t method args. Inr None),
      result_rpcTx = (\<lambda>t method args. Inr None),
      result_uint32 = (\<lambda>t method args. Inr 7),
      result_string = (\<lambda>t method args. Inl ''connection refused''),
      result_strings = (\<lambda>t method args. Inr [])\<rparr>"

definition example_config :: "int \<Rightarrow> Configuration" where
  "example_config keep =
     \<lparr>CoinName = ''Nimiq'', CoinShortcut = ''NIM'', RPCURL = ''http://127.0.0.1:8648'',
      RPCTimeout = 25, Configuration.BlockAddressesToKeep = keep\<rparr>"

definition example_tx :: "64 word \<Rightarrow> rpcTx" where
  "example_tx v =
     \<lparr>rpcTx.Hash = ''465a63b73aa0b9b54b777be9a585ea00b367a17898ad520e1f22cb2c986ff554'',
      BlockHash = ''ab'', Timestamp = 1523727060, Confirmations = 3, TransactionIndex = 0,
      From = ''b7cc7f01e0e6f0e07dd9249dc598f4e5ee8801f5'', FromAddress = ''NQ39 NY67 X0F0'',
      To = ''9a4e4c1e1e8a3b1e0e6f0e07dd9249dc598f4e5e'', ToAddress = ''NQ16 61ET MB3M'',
      Value = v, Fee = 138\<rparr>"

definition example_env :: "Configuration \<Rightarrow> Collaborators" where
  "example_env cfg =
     \<lparr>Unmarshal_Configuration = (\<lambda>raw. Inr cfg),
      Unmarshal_rpcHeader = (\<lambda>raw. Inr (example_header raw)),
      Unmarshal_rpcBlock = (\<lambda>raw. Inr \<lparr>rpcBlock.Txs = []\<rparr>),
      Unmarshal_rpcLightBlock = (\<lambda>raw. Inr \<lparr>rpcLightBlock.Txs = []\<rparr>),
      Dial = (\<lambda>url. Inr (example_client url)),
      MainNet_Hash = replicate 32 0x11,
      TestNet_Hash = replicate 32 0x22,
      DevNet_Hash = replicate 32 0x33\<rparr>"

definition example_connector :: "RawMessage \<Rightarrow> NimiqRPC" where
  "example_connector payload =
     \<lparr>BaseChain = Some \<lparr>Parser = None, Testnet = False, Network = []\<rparr>,
      rpc = Some (example_client payload),
      timeout = 25000000000,
      ChainConfig = None\<rparr>"

section \<open>Auxiliary facts\<close>

subsection \<open>Hexadecimal encoding is injective\<close>

lemma bit_15: "n < 4 \<Longrightarrow> bit (15 :: 8 word) n"
proof -
  assume "n < 4"
  then have "n = 0 \<or> n = 1 \<or> n = 2 \<or> n = 3" by arith
  then show ?thesis by (elim disjE) simp_all
qed

lemma byte_of_nibbles:
  fixes v w :: "8 word"
  assumes hi: "drop_bit 4 v = drop_bit 4 w" and lo: "v AND 0x0f = w AND 0x0f"
  shows "v = w"
proof (rule bit_eqI)
  fix n
  show "bit v n = bit w n"
  proof (cases "n < 4")
    case True
    have "bit (v AND 0x0f) n = bit (w AND 0x0f) n" using lo by simp
    with bit_15 [OF True] show ?thesis by (simp only: bit_and_iff simp_thms)
  next
    case False
    then obtain k where n: "n = 4 + k" by (metis le_add_diff_inverse not_less)
    have "bit (drop_bit 4 v) k = bit (drop_bit 4 w) k" using hi by simp
    then show ?thesis by (simp only: bit_drop_bit_eq n o_def)
  qed
qed


lemma hextable_distinct: "distinct hextable"
  by (simp add: hextable_def)

lemma hextable_inj:
  assumes "i < 16" "j < 16" "hextable ! i = hextable ! j"
  shows "i = j"
proof -
  have "length hextable = 16"
    by (simp add: hextable_def)
  with assms hextable_distinct show ?thesis
    by (simp add: nth_eq_iff_index_eq)
qed

lemma high_nibble_bound: "unat (drop_bit 4 (v :: 8 word)) < 16"
proof -
  have "unat v < 2 ^ 8" using unsigned_less [of v] by simp
  then show ?thesis by (simp add: drop_bit_eq_div unat_div)
qed

lemma low_nibble_bound: "unat ((v :: 8 word) AND 0x0f) < 16"
proof -
  have "unat (v AND 15) \<le> unat (15 :: 8 word)"
    by (rule word_and_le1 [THEN word_le_nat_alt [THEN iffD1]])
  then show ?thesis by simp
qed

lemma EncodeToString_inj: "EncodeToString xs = EncodeToString ys \<Longrightarrow> xs = ys"
proof (induction xs arbitrary: ys)
  case Nil
  then show ?case by (cases ys) simp_all
next
  case (Cons v xs)
  then obtain w zs where ys: "ys = w # zs" by (cases ys) simp_all
  from Cons.prems have eq: "EncodeToString (v # xs) = EncodeToString (w # zs)"
    by (simp only: ys)
  from eq have hi: "hextable ! unat (drop_bit 4 v) = hextable ! unat (drop_bit 4 w)"
    by (simp only: EncodeToString.simps list.inject)
  from eq have lo: "hextable ! unat (v AND 0x0f) = hextable ! unat (w AND 0x0f)"
    by (simp only: EncodeToString.simps list.inject)
  from eq have rest: "EncodeToString xs = EncodeToString zs"
    by (simp only: EncodeToString.simps list.inject)
  have "unat (drop_bit 4 v) = unat (drop_bit 4 w)"
    using hi by (rule hextable_inj [OF high_nibble_bound high_nibble_bound])
  then have h: "drop_bit 4 v = drop_bit 4 w"
    by (rule word_unat_eq_iff [THEN iffD2])
  have "unat (v AND 0x0f) = unat (w AND 0x0f)"
    using lo by (rule hextable_inj [OF low_nibble_bound low_nibble_bound])
  then have l: "v AND 0x0f = w AND 0x0f"
    by (rule word_unat_eq_iff [THEN iffD2])
  have "v = w" using h l by (rule byte_of_nibbles)
  with Cons.IH [OF rest] ys show ?case by simp
qed

subsection \<open>Issuing a request\<close>

lemma CallContext_Some:
  "CallContext (Some c) res method args t =
     (Return (res c t method args), t @ [Call method args])"
  by (simp add: CallContext_def)

lemma CallContext_None: "CallContext None res method args t = (Panic, t)"
  by (simp add: CallContext_def)

subsection \<open>Reading a large unsigned value as signed\<close>

lemma sint_large:
  fixes w :: "64 word"
  assumes "2 ^ 63 \<le> unat w"
  shows "sint w = int (unat w) - 2 ^ 64"
proof -
  from assms have "int (2 ^ 63) \<le> int (unat w)" by (simp only: of_nat_le_iff)
  then have lo: "2 ^ 63 \<le> uint w" by simp
  have hi: "uint w < 2 ^ 64" using uint_bounded [of w] by simp
  have "uint w div 2 ^ 63 = 1" using lo hi by simp
  then have b: "bit (uint w) 63" by (simp add: bit_iff_odd)
  have tb: "take_bit 64 (uint w) = uint w"
    using hi by (simp add: take_bit_int_eq_self)
  have "sint w = signed_take_bit 63 (uint w)" by (simp add: sint_uint)
  also have "\<dots> = take_bit (Suc 63) (uint w) - 2 ^ Suc 63 * of_bool (bit (uint w) 63)"
    by (rule signed_take_bit_eq_take_bit_minus)
  also have "\<dots> = uint w - 2 ^ 64" using b tb by simp
  finally show ?thesis by simp
qed

lemma sint_small:
  fixes w :: "64 word"
  assumes "unat w < 2 ^ 63"
  shows "sint w = int (unat w)"
proof -
  from assms have "int (unat w) < int (2 ^ 63)" by (simp only: of_nat_less_iff)
  then have hi: "uint w < 2 ^ 63" by simp
  have lo: "0 \<le> uint w" by simp
  have "uint w div 2 ^ 63 = 0" using lo hi by simp
  then have b: "\<not> bit (uint w) 63" by (simp add: bit_iff_odd)
  have tb: "take_bit 64 (uint w) = uint w"
    using hi by (simp add: take_bit_int_eq_self)
  have "sint w = signed_take_bit 63 (uint w)" by (simp add: sint_uint)
  also have "\<dots> = take_bit (Suc 63) (uint w) - 2 ^ Suc 63 * of_bool (bit (uint w) 63)"
    by (rule signed_take_bit_eq_take_bit_minus)
  also have "\<dots> = uint w" using b tb by simp
  finally show ?thesis by simp
qed

text \<open>Below \<open>2^63\<close> the translator keeps the wire value.\<close>

lemma nimTxToTx_value_small:
  "unat (Value tx) < 2 ^ 63 \<Longrightarrow>
   map ValueSat (Tx.Vout (nimTxToTx tx)) = [int (unat (Value tx))]"
  using sint_small [of "Value tx"] by (simp add: nimTxToTx_def)

text \<open>Every transaction has one input, holding the sender, and one output, holding the
  recipient.\<close>

lemma nimTxToTx_shape:
  "map Vin.Addresses (Tx.Vin (nimTxToTx tx)) = [[From tx]]
   \<and> map (\<lambda>out. ScriptPubKey.Addresses (ScriptPubKey out)) (Tx.Vout (nimTxToTx tx)) = [[To tx]]"
  by (simp add: nimTxToTx_def)

section \<open>The claims\<close>

subsection \<open>Network classification\<close>

text \<open>
  C1. Initialization classifies the network from the hash of the genesis block alone.
  When the block fetched at height 1 has the hash of the main, the test or the
  development network, \<open>Initialize\<close> returns no error and sets the label and the testnet
  flag of that network (\<open>mainnet\<close> and false, \<open>testnet\<close> and true, \<open>devnet\<close> and true);
  for every other hash it returns the classification error and leaves the connector as
  it was. The three genesis hashes are distinct byte arrays.
\<close>

theorem Initialize_classifies_by_genesis_hash:
  assumes genesis: "GetBlock env b [] 1 t = (Return (Some g, None), t')"
    and chain: "BaseChain b = Some bc"
    and known: "distinct [MainNet_Hash env, TestNet_Hash env, DevNet_Hash env]"
  shows "(BlockHeader.Hash (Block.BlockHeader g) = EncodeToString (MainNet_Hash env) \<longrightarrow>
            Initialize env b t =
              (Return None,
               b\<lparr>BaseChain := Some (bc\<lparr>Testnet := False, Network := ''mainnet''\<rparr>)\<rparr>, t'))
       \<and> (BlockHeader.Hash (Block.BlockHeader g) = EncodeToString (TestNet_Hash env) \<longrightarrow>
            Initialize env b t =
              (Return None,
               b\<lparr>BaseChain := Some (bc\<lparr>Testnet := True, Network := ''testnet''\<rparr>)\<rparr>, t'))
       \<and> (BlockHeader.Hash (Block.BlockHeader g) = EncodeToString (DevNet_Hash env) \<longrightarrow>
            Initialize env b t =
              (Return None,
               b\<lparr>BaseChain := Some (bc\<lparr>Testnet := True, Network := ''devnet''\<rparr>)\<rparr>, t'))
       \<and> (BlockHeader.Hash (Block.BlockHeader g) \<noteq> EncodeToString (MainNet_Hash env) \<and>
          BlockHeader.Hash (Block.BlockHeader g) \<noteq> EncodeToString (TestNet_Hash env) \<and>
          BlockHeader.Hash (Block.BlockHeader g) \<noteq> EncodeToString (DevNet_Hash env) \<longrightarrow>
            Initialize env b t =
              (Return (Some (Errorf ''Unknown network genesis %s''
                               [AString (BlockHeader.Hash (Block.BlockHeader g))])), b, t'))"
proof -
  from known have ne:
    "EncodeToString (TestNet_Hash env) \<noteq> EncodeToString (MainNet_Hash env)"
    "EncodeToString (DevNet_Hash env) \<noteq> EncodeToString (MainNet_Hash env)"
    "EncodeToString (DevNet_Hash env) \<noteq> EncodeToString (TestNet_Hash env)"
    by (auto dest: EncodeToString_inj)
  show ?thesis
    using ne by (simp add: Initialize_def genesis chain)
qed

text \<open>The four cases on the concrete node: the payloads are the encodings of the three
  genesis hashes and of a fourth array.\<close>

theorem Initialize_classifies_by_genesis_hash_witness:
  "Initialize (example_env (example_config 100))
      (example_connector (EncodeToString (replicate 32 0x11))) [] =
     (Return None,
      (example_connector (EncodeToString (replicate 32 0x11)))
        \<lparr>BaseChain := Some \<lparr>Parser = None, Testnet = False, Network = ''mainnet''\<rparr>\<rparr>,
      [Call ''getBlockByNumber'' [AUint32 1, ABool True]])
   \<and> Initialize (example_env (example_config 100))
      (example_connector (EncodeToString (replicate 32 0x22))) [] =
     (Return None,
      (example_connector (EncodeToString (replicate 32 0x22)))
        \<lparr>BaseChain := Some \<lparr>Parser = None, Testnet = True, Network = ''testnet''\<rparr>\<rparr>,
      [Call ''getBlockByNumber'' [AUint32 1, ABool True]])
   \<and> Initialize (example_env (example_config 100))
      (example_connector (EncodeToString (replicate 32 0x33))) [] =
     (Return None,
      (example_connector (EncodeToString (replicate 32 0x33)))
        \<lparr>BaseChain := Some \<lparr>Parser = None, Testnet = True, Network = ''devnet''\<rparr>\<rparr>,
      [Call ''getBlockByNumber'' [AUint32 1, ABool True]])
   \<and> Initialize (example_env (example_config 100))
      (example_connector (EncodeToString (replicate 32 0x44))) [] =
     (Return (Some (Errorf ''Unknown network genesis %s''
                      [AString (EncodeToString (replicate 32 0x44))])),
      example_connector (EncodeToString (replicate 32 0x44)),
      [Call ''getBlockByNumber'' [AUint32 1, ABool True]])"
proof -
  let ?env = "example_env (example_config 100)"
  let ?bc = "\<lparr>Parser = None, Testnet = False, Network = []\<rparr>"
  have fetch: "GetBlock ?env (example_connector p) [] 1 [] =
      (Return (Some \<lparr>Block.BlockHeader = nimHeaderToBlockHeader (example_header p),
                     Block.Txs = []\<rparr>, None),
       [Call ''getBlockByNumber'' [AUint32 1, ABool True]])" for p
    by (simp add: GetBlock_def CallContext_def example_connector_def example_client_def
        example_env_def)
  have chain: "BaseChain (example_connector p) = Some ?bc" for p
    by (simp add: example_connector_def)
  have known: "distinct [MainNet_Hash ?env, TestNet_Hash ?env, DevNet_Hash ?env]"
    by (simp add: example_env_def)
  have hash: "BlockHeader.Hash (nimHeaderToBlockHeader (example_header p)) = p" for p
    by (simp add: nimHeaderToBlockHeader_def example_header_def)
  have other: "EncodeToString (replicate 32 0x44) \<noteq> EncodeToString (replicate 32 v)"
    if "v \<noteq> 0x44" for v :: "8 word"
    using that EncodeToString_inj [of "replicate 32 0x44" "replicate 32 v"] by auto
  note inst = Initialize_classifies_by_genesis_hash [OF fetch chain known]
  show ?thesis
    using inst [of "EncodeToString (replicate 32 0x11)"]
      inst [of "EncodeToString (replicate 32 0x22)"]
      inst [of "EncodeToString (replicate 32 0x33)"]
      inst [of "EncodeToString (replicate 32 0x44)"]
      other [of "0x11"] other [of "0x22"] other [of "0x33"]
    by (simp add: hash example_env_def)
qed

subsection \<open>The value of a transaction\<close>

text \<open>
  C2, at the wire value \<open>2^63\<close>. The canonical transaction has one input with the
  sender and one output with the recipient, but the output's value is \<open>-2^63\<close>: it is
  not the wire value.
\<close>

theorem nimTxToTx_value_differs_at_2_63:
  "map Vin.Addresses (Tx.Vin (nimTxToTx (example_tx 0x8000000000000000))) =
     [[From (example_tx 0x8000000000000000)]]
   \<and> map (\<lambda>out. ScriptPubKey.Addresses (ScriptPubKey out))
       (Tx.Vout (nimTxToTx (example_tx 0x8000000000000000))) =
     [[To (example_tx 0x8000000000000000)]]
   \<and> uint (Value (example_tx 0x8000000000000000)) = 9223372036854775808
   \<and> map ValueSat (Tx.Vout (nimTxToTx (example_tx 0x8000000000000000))) =
     [- 9223372036854775808]"
  by (simp add: nimTxToTx_def example_tx_def)

text \<open>
  C9. The canonical value is the wire value read as a signed 64-bit integer. For every
  wire transaction whose value is at least \<open>2^63\<close>, the value of the single output is
  the wire value minus \<open>2^64\<close>, which is negative.
\<close>

theorem nimTxToTx_value_through_int64:
  assumes "2 ^ 63 \<le> unat (Value tx)"
  shows "map ValueSat (Tx.Vout (nimTxToTx tx)) = [sint (Value tx)]
       \<and> sint (Value tx) = int (unat (Value tx)) - 2 ^ 64
       \<and> sint (Value tx) < 0"
proof -
  have "uint (Value tx) < 2 ^ 64" using uint_bounded [of "Value tx"] by simp
  then have "int (unat (Value tx)) - 2 ^ 64 < 0" by simp
  with sint_large [OF assms] show ?thesis by (simp add: nimTxToTx_def)
qed

text \<open>The largest wire value, \<open>2^64 - 1\<close>, becomes \<open>-1\<close>.\<close>

theorem nimTxToTx_value_through_int64_witness:
  "(2::nat) ^ 63 \<le> unat (Value (example_tx 0xffffffffffffffff))
   \<and> map ValueSat (Tx.Vout (nimTxToTx (example_tx 0xffffffffffffffff))) = [- 1]
   \<and> int (unat (Value (example_tx 0xffffffffffffffff))) - 2 ^ 64 = - 1"
proof -
  have big: "2 ^ 63 \<le> unat (Value (example_tx 0xffffffffffffffff))"
    by (simp add: example_tx_def)
  have "unat (Value (example_tx 0xffffffffffffffff)) = 18446744073709551615"
    by (simp add: example_tx_def)
  with big nimTxToTx_value_through_int64 [OF big] show ?thesis
    by simp
qed

subsection \<open>Operations the adapter does not support\<close>

text \<open>
  C3, as the code has it. Each of the nine operations fails, whatever its arguments,
  with one fixed error: it never returns a \<open>nil\<close> error. The text contains
  \<open>not supported\<close> for the mempool-optimised transaction lookup, the coin-specific
  transaction JSON, both fee estimations, both lookups of mempool transactions by
  address and the mempool-entry lookup; for mempool resynchronisation and for the
  chain-info query the text is \<open>not implemented\<close>.
\<close>

theorem unsupported_operations_fail_with_fixed_text:
  "GetTransactionForMempool b txid =
     (None, Some (New ''GetTransactionForMempool: not supported''))
   \<and> GetTransactionSpecific b tx = (None, Some (New ''GetTransactionSpecific: not supported''))
   \<and> EstimateFee b blocks = (0, Some (New ''GetMempoolEntry: not supported''))
   \<and> EstimateSmartFee b blocks conservative =
       (0, Some (New ''EstimateSmartFee: not supported''))
   \<and> ResyncMempool b onNewTxAddr = (0, Some (New ''not implemented''))
   \<and> GetMempoolTransactions b address =
       (None, Some (New ''GetMempoolTransactions: not supported''))
   \<and> GetMempoolTransactionsForAddrDesc b addrDesc =
       (None, Some (New ''GetMempoolTransactionsForAddrDesc: not supported''))
   \<and> GetMempoolEntry b txid = (None, Some (New ''GetMempoolEntry: not supported''))
   \<and> GetChainInfo b = (None, Some (New ''not implemented''))
   \<and> mentions (snd (GetTransactionForMempool b txid)) ''not supported''
   \<and> mentions (snd (GetTransactionSpecific b tx)) ''not supported''
   \<and> mentions (snd (EstimateFee b blocks)) ''not supported''
   \<and> mentions (snd (EstimateSmartFee b blocks conservative)) ''not supported''
   \<and> mentions (snd (GetMempoolTransactions b address)) ''not supported''
   \<and> mentions (snd (GetMempoolTransactionsForAddrDesc b addrDesc)) ''not supported''
   \<and> mentions (snd (GetMempoolEntry b txid)) ''not supported''
   \<and> mentions (snd (ResyncMempool b onNewTxAddr)) ''not implemented''
   \<and> mentions (snd (GetChainInfo b)) ''not implemented''"
  by (simp add: GetTransactionForMempool_def GetTransactionSpecific_def EstimateFee_def
      EstimateSmartFee_def ResyncMempool_def GetMempoolTransactions_def
      GetMempoolTransactionsForAddrDesc_def GetMempoolEntry_def GetChainInfo_def mentions_def)

text \<open>On the concrete connector, two of the operations.\<close>

theorem unsupported_operations_fail_with_fixed_text_witness:
  "GetMempoolTransactions (example_connector []) ''NQ07 0000'' =
     (None, Some (New ''GetMempoolTransactions: not supported''))
   \<and> mentions (snd (GetMempoolTransactions (example_connector []) ''NQ07 0000''))
       ''not supported''
   \<and> ResyncMempool (example_connector []) () = (0, Some (New ''not implemented''))"
  using unsupported_operations_fail_with_fixed_text
    [of "example_connector []" "''465a''" None 6 True "()" "''NQ07 0000''" "[]"]
  by blast

text \<open>The claim as it is written fails: the text of the error of the chain-info query
  and of mempool resynchronisation does not contain \<open>not supported\<close>.\<close>

theorem not_implemented_lacks_not_supported:
  "\<not> mentions (snd (GetChainInfo (example_connector []))) ''not supported''
   \<and> \<not> mentions (snd (ResyncMempool (example_connector []) ())) ''not supported''"
  by (simp add: GetChainInfo_def ResyncMempool_def mentions_def)

text \<open>
  C10. Whatever its argument, simple fee estimation fails with the text
  \<open>GetMempoolEntry: not supported\<close>, the very error of the mempool-entry lookup; the
  text does not name \<open>EstimateFee\<close>.
\<close>

theorem EstimateFee_reports_GetMempoolEntry:
  "EstimateFee b blocks = (0, Some (New ''GetMempoolEntry: not supported''))
   \<and> snd (EstimateFee b blocks) = snd (GetMempoolEntry b' txid)
   \<and> \<not> mentions (snd (EstimateFee b blocks)) ''EstimateFee''"
  by (simp add: EstimateFee_def GetMempoolEntry_def mentions_def)

theorem EstimateFee_reports_GetMempoolEntry_witness:
  "EstimateFee (example_connector []) 6 = (0, Some (New ''GetMempoolEntry: not supported''))
   \<and> snd (EstimateFee (example_connector []) 6) =
       snd (GetMempoolEntry (example_connector []) ''465a'')
   \<and> \<not> mentions (snd (EstimateFee (example_connector []) 6)) ''EstimateFee''"
  by (rule EstimateFee_reports_GetMempoolEntry)

subsection \<open>Fetching blocks and transactions\<close>

text \<open>
  C4. On an open handle, a full-block fetch with a non-empty hash issues exactly the
  request \<open>getBlockByHash(hash, true)\<close>, whatever the height, and the block it returns
  is the same for every height; the request \<open>getBlockByNumber(height, true)\<close> is issued
  when the hash is empty.
\<close>

theorem GetBlock_hash_has_precedence:
  assumes "rpc b = Some c"
  shows "(hash \<noteq> [] \<longrightarrow>
            snd (GetBlock env b hash height t) =
              t @ [Call ''getBlockByHash'' [AString hash, ABool True]]
          \<and> (\<forall>blk. fst (GetBlock env b hash height t) = Return (Some blk, None) \<longrightarrow>
                 fst (GetBlock env b hash height' t) = Return (Some blk, None)))
       \<and> (hash = [] \<longrightarrow>
            snd (GetBlock env b hash height t) =
              t @ [Call ''getBlockByNumber'' [AUint32 height, ABool True]])"
  using assms
  by (auto simp: GetBlock_def CallContext_Some split: sum.splits)

theorem GetBlock_hash_has_precedence_witness:
  "snd (GetBlock (example_env (example_config 100)) (example_connector ''ab'') ''ab'' 5 []) =
     [Call ''getBlockByHash'' [AString ''ab'', ABool True]]
   \<and> fst (GetBlock (example_env (example_config 100)) (example_connector ''ab'') ''ab'' 9 []) =
     Return (Some \<lparr>Block.BlockHeader = nimHeaderToBlockHeader (example_header ''ab''),
                   Block.Txs = []\<rparr>, None)
   \<and> snd (GetBlock (example_env (example_config 100)) (example_connector ''ab'') [] 5 []) =
     [Call ''getBlockByNumber'' [AUint32 5, ABool True]]"
proof -
  let ?env = "example_env (example_config 100)"
  have handle: "rpc (example_connector ''ab'') = Some (example_client ''ab'')"
    by (simp add: example_connector_def)
  have at5: "fst (GetBlock ?env (example_connector ''ab'') ''ab'' 5 []) =
      Return (Some \<lparr>Block.BlockHeader = nimHeaderToBlockHeader (example_header ''ab''),
                    Block.Txs = []\<rparr>, None)"
    by (simp add: GetBlock_def CallContext_def example_connector_def example_client_def
        example_env_def)
  from GetBlock_hash_has_precedence [OF handle, of "''ab''" ?env 5 "[]" 9]
    GetBlock_hash_has_precedence [OF handle, of "[]" ?env 5 "[]" 5] at5
  show ?thesis by simp
qed

text \<open>
  C5. On an open handle, the lookup of a transaction by id returns \<open>ErrTxNotFound\<close>
  exactly when the client leaves the transaction pointer \<open>nil\<close> without an error, and
  the lookups of a block header by hash, of a block hash by height and of the best block
  hash (once the height is known) return \<open>ErrBlockNotFound\<close> exactly when the client
  leaves the header pointer \<open>nil\<close> without an error: the not-found errors are not
  returned for a failure of the client. No lookup returns a \<open>nil\<close> result with a
  \<open>nil\<close> error.
\<close>

theorem not_found_when_node_returns_null:
  assumes "rpc b = Some c"
  shows "(fst (GetTransaction b txid t) = Return (None, Some ErrTxNotFound) \<longleftrightarrow>
            result_rpcTx c t ''getTransactionByHash'' [AString txid] = Inr None)
       \<and> (fst (GetBlockHeader b hash t) = Return (None, Some ErrBlockNotFound) \<longleftrightarrow>
            result_rpcHeader c t ''getBlockByHash'' [AString hash] = Inr None)
       \<and> (fst (GetBlockHash b height t) = Return ([], Some ErrBlockNotFound) \<longleftrightarrow>
            result_rpcHeader c t ''getBlockByNumber'' [AUint32 height] = Inr None)
       \<and> (result_uint32 c t ''blockNumber'' [] = Inr headNum \<longrightarrow>
            (fst (GetBestBlockHash b t) = Return ([], Some ErrBlockNotFound) \<longleftrightarrow>
               result_rpcHeader c (t @ [Call ''blockNumber'' []]) ''getBlockByNumber''
                 [AUint32 headNum] = Inr None))
       \<and> fst (GetTransaction b txid t) \<noteq> Return (None, None)
       \<and> fst (GetBlockHeader b hash t) \<noteq> Return (None, None)"
  using assms
  by (auto simp: GetTransaction_def GetBlockHeader_def GetBlockHash_def GetBestBlockHash_def
      GetBestBlockHeight_def CallContext_Some split: sum.splits option.splits)

theorem not_found_when_node_returns_null_witness:
  "fst (GetTransaction (example_connector []) ''465a'' []) = Return (None, Some ErrTxNotFound)
   \<and> fst (GetBlockHeader (example_connector []) ''ab'' []) =
       Return (None, Some ErrBlockNotFound)
   \<and> fst (GetBlockHash (example_connector []) 3 []) = Return ([], Some ErrBlockNotFound)
   \<and> fst (GetBestBlockHash (example_connector []) []) = Return ([], Some ErrBlockNotFound)"
proof -
  have handle: "rpc (example_connector []) = Some (example_client [])"
    by (simp add: example_connector_def)
  have tx: "result_rpcTx (example_client []) t m args = Inr None"
    and header: "result_rpcHeader (example_client []) t m args = Inr None"
    and head: "result_uint32 (example_client []) t m args = Inr 7" for t m args
    by (simp_all add: example_client_def)
  from not_found_when_node_returns_null [OF handle, of "''465a''" "[]" "''ab''" 3 7]
  show ?thesis by (simp add: tx header head)
qed

text \<open>
  C7. For a non-empty hash, when the payloads the node returns for the full block and
  for the block summary decode to the same wire header (as one payload does), and both
  fetches succeed, the two canonical headers agree on hash, parent hash, height, size
  and time.
\<close>

theorem GetBlock_GetBlockInfo_headers_agree:
  assumes "hash \<noteq> []" and "rpc b = Some c"
    and "result_RawMessage c t1 ''getBlockByHash'' [AString hash, ABool True] = Inr full"
    and "result_RawMessage c t2 ''getBlockByHash'' [AString hash, ABool False] = Inr light"
    and "Unmarshal_rpcHeader env full = Unmarshal_rpcHeader env light"
    and "fst (GetBlock env b hash height t1) = Return (Some blk, None)"
    and "fst (GetBlockInfo env b hash t2) = Return (Some info, None)"
  shows "BlockHeader.Hash (Block.BlockHeader blk) = BlockHeader.Hash (BlockInfo.BlockHeader info)
       \<and> Prev (Block.BlockHeader blk) = Prev (BlockInfo.BlockHeader info)
       \<and> Height (Block.BlockHeader blk) = Height (BlockInfo.BlockHeader info)
       \<and> BlockHeader.Size (Block.BlockHeader blk) = BlockHeader.Size (BlockInfo.BlockHeader info)
       \<and> BlockHeader.Time (Block.BlockHeader blk) = BlockHeader.Time (BlockInfo.BlockHeader info)"
  using assms
  by (auto simp: GetBlock_def GetBlockInfo_def CallContext_Some split: sum.splits)

theorem GetBlock_GetBlockInfo_headers_agree_witness:
  "fst (GetBlock (example_env (example_config 100)) (example_connector ''ab'') ''ab'' 5 []) =
     Return (Some \<lparr>Block.BlockHeader = nimHeaderToBlockHeader (example_header ''ab''),
                   Block.Txs = []\<rparr>, None)
   \<and> fst (GetBlockInfo (example_env (example_config 100)) (example_connector ''ab'') ''ab'' []) =
     Return (Some \<lparr>BlockInfo.BlockHeader = nimHeaderToBlockHeader (example_header ''ab''),
                   BlockInfo.Difficulty = ''1'', BlockInfo.Nonce = ''104295'', Txids = []\<rparr>,
             None)
   \<and> BlockHeader.Hash (nimHeaderToBlockHeader (example_header ''ab'')) = ''ab''
   \<and> Height (nimHeaderToBlockHeader (example_header ''ab'')) = 1"
proof -
  let ?env = "example_env (example_config 100)"
  let ?blk = "\<lparr>Block.BlockHeader = nimHeaderToBlockHeader (example_header ''ab''),
               Block.Txs = []\<rparr>"
  let ?info = "\<lparr>BlockInfo.BlockHeader = nimHeaderToBlockHeader (example_header ''ab''),
                BlockInfo.Difficulty = ''1'', BlockInfo.Nonce = ''104295'', Txids = []\<rparr>"
  have named: "''ab'' \<noteq> []" by simp
  have handle: "rpc (example_connector ''ab'') = Some (example_client ''ab'')"
    by (simp add: example_connector_def)
  have payload: "result_RawMessage (example_client ''ab'') t m args = Inr ''ab''"
    for t m args
    by (simp add: example_client_def)
  have full: "fst (GetBlock ?env (example_connector ''ab'') ''ab'' 5 []) =
      Return (Some ?blk, None)"
    by (simp add: GetBlock_def CallContext_def example_connector_def example_client_def
        example_env_def)
  have light: "fst (GetBlockInfo ?env (example_connector ''ab'') ''ab'' []) =
      Return (Some ?info, None)"
    by (simp add: GetBlockInfo_def CallContext_def example_connector_def example_client_def
        example_env_def example_header_def)
  have "BlockHeader.Hash (nimHeaderToBlockHeader (example_header ''ab'')) = ''ab''"
    "Height (nimHeaderToBlockHeader (example_header ''ab'')) = 1"
    by (simp_all add: nimHeaderToBlockHeader_def example_header_def)
  with GetBlock_GetBlockInfo_headers_agree [OF named handle payload payload refl full light]
    full light
  show ?thesis by simp
qed

subsection \<open>Construction and shutdown\<close>

text \<open>
  C6. For every configuration that decodes and whose endpoint can be dialled,
  construction returns a connector and no error, and the number of block-to-address
  mappings the connector keeps is 100 when the configured number is below 100 and the
  configured number when that is 100 or more.
\<close>

theorem NewNimiqRPC_keeps_at_least_100:
  assumes "Unmarshal_Configuration env config = Inr c"
    and "Dial env (RPCURL c) = Inr rc"
  shows "\<exists>s c'. NewNimiqRPC env config pushHandler = (Some s, None)
          \<and> ChainConfig s = Some c'
          \<and> (Configuration.BlockAddressesToKeep c < 100 \<longrightarrow>
               Configuration.BlockAddressesToKeep c' = 100)
          \<and> (100 \<le> Configuration.BlockAddressesToKeep c \<longrightarrow>
               Configuration.BlockAddressesToKeep c' = Configuration.BlockAddressesToKeep c)"
  using assms by (simp add: NewNimiqRPC_def Let_def)

text \<open>A configured 30 becomes 100; a configured 300 stays.\<close>

theorem NewNimiqRPC_keeps_at_least_100_witness:
  "(\<exists>s c'. NewNimiqRPC (example_env (example_config 30)) ''{}'' () = (Some s, None)
      \<and> ChainConfig s = Some c' \<and> Configuration.BlockAddressesToKeep c' = 100)
   \<and> (\<exists>s c'. NewNimiqRPC (example_env (example_config 300)) ''{}'' () = (Some s, None)
      \<and> ChainConfig s = Some c' \<and> Configuration.BlockAddressesToKeep c' = 300)"
proof -
  have decoded: "Unmarshal_Configuration (example_env (example_config k)) ''{}'' =
      Inr (example_config k)" for k
    by (simp add: example_env_def)
  have dialled: "Dial (example_env (example_config k)) (RPCURL (example_config k)) =
      Inr (example_client (RPCURL (example_config k)))" for k
    by (simp add: example_env_def)
  have keep: "Configuration.BlockAddressesToKeep (example_config k) = k" for k
    by (simp add: example_config_def)
  from NewNimiqRPC_keeps_at_least_100 [OF decoded dialled, of 30 "()"]
    NewNimiqRPC_keeps_at_least_100 [OF decoded dialled, of 300 "()"]
  show ?thesis by (simp add: keep)
qed

text \<open>
  C8. \<open>Shutdown\<close> returns no error, whatever the connector; on a connector whose handle
  was never opened it does nothing at all; and a second call after a first returns no
  error either.
\<close>

theorem Shutdown_never_fails:
  "fst (Shutdown b ctx t) = None
   \<and> (rpc b = None \<longrightarrow> Shutdown b ctx t = (None, t))
   \<and> fst (Shutdown b ctx' (snd (Shutdown b ctx t))) = None"
  by (simp add: Shutdown_def)

theorem Shutdown_never_fails_witness:
  "Shutdown ((example_connector [])\<lparr>rpc := None\<rparr>) () [] = (None, [])
   \<and> fst (Shutdown (example_connector []) () (snd (Shutdown (example_connector []) () []))) =
       None"
proof -
  have closed: "rpc ((example_connector [])\<lparr>rpc := None\<rparr>) = None" by simp
  from Shutdown_never_fails [of "(example_connector [])\<lparr>rpc := None\<rparr>" "()" "[]" "()"]
    Shutdown_never_fails [of "example_connector []" "()" "[]" "()"] closed
  show ?thesis by simp
qed

end
